theory Spec2Isabelle
  imports Complex_Main
begin

section \<open>Data model\<close>

text \<open>
  The strategies of \<^verbatim>\<open>src/strategies\<close> compute on Python and numpy floats. Floats are
  modelled as real numbers: rounding, overflow, infinities and NaN are outside the model,
  except where the source's behaviour on them is written out as a branch of its own
  (division by zero in the order quantity, the mean over an empty slice in
  \<^verbatim>\<open>calculate_adx\<close>).
\<close>

text \<open>
  A candle, as \<^verbatim>\<open>MEXCAPI.get_klines\<close> builds it: a dict with exactly these six keys.
\<close>

record kline =
  timestamp :: int
  openp :: real
  high :: real
  low :: real
  close :: real
  volume :: real

text \<open>The three strings a strategy returns: \<^verbatim>\<open>'buy'\<close>, \<^verbatim>\<open>'sell'\<close>, \<^verbatim>\<open>'hold'\<close>.\<close>

datatype signal = Buy | Sell | Hold

text \<open>
  The exceptions of the model. \<open>TypeError\<close> is what Python raises on \<^verbatim>\<open>None * 10\<close>.
  \<open>CollaboratorError\<close> stands for any exception of class \<^verbatim>\<open>Exception\<close> raised inside a
  collaborator (\<^verbatim>\<open>market_data.get_klines\<close>,
  \<^verbatim>\<open>volatility_analyzer.analyze_volatility\<close>), whose code is not part of the strategies.
  \<open>CancelledError\<close> is \<^verbatim>\<open>asyncio.CancelledError\<close>, raised at an \<^verbatim>\<open>await\<close> when the
  task is cancelled; it stands for the exceptions that derive from \<^verbatim>\<open>BaseException\<close> and
  not from \<^verbatim>\<open>Exception\<close>.
\<close>

datatype exn = TypeError | CollaboratorError | CancelledError

text \<open>\<^verbatim>\<open>isinstance(e, Exception)\<close>: what a handler \<^verbatim>\<open>except Exception\<close> catches.\<close>

definition is_exception :: "exn \<Rightarrow> bool" where
  "is_exception e = (case e of TypeError \<Rightarrow> True | CollaboratorError \<Rightarrow> True | CancelledError \<Rightarrow> False)"

section \<open>Numeric helpers (numpy and Python builtins)\<close>

text \<open>\<^verbatim>\<open>np.mean(xs)\<close> on a non-empty sequence.\<close>

definition mean :: "real list \<Rightarrow> real" where
  "mean xs = sum_list xs / real (length xs)"

text \<open>\<^verbatim>\<open>np.diff(xs)\<close>: the differences \<^verbatim>\<open>xs[i+1] - xs[i]\<close>.\<close>

fun np_diff :: "real list \<Rightarrow> real list" where
  "np_diff [] = []"
| "np_diff [x] = []"
| "np_diff (x # y # ys) = (y - x) # np_diff (y # ys)"

text \<open>\<^verbatim>\<open>np.clip(x, lo, hi)\<close>.\<close>

definition np_clip :: "real \<Rightarrow> real \<Rightarrow> real \<Rightarrow> real" where
  "np_clip x lo hi = min (max x lo) hi"

text \<open>Python's \<^verbatim>\<open>int(x)\<close> on a float: truncation towards zero.\<close>

definition py_int :: "real \<Rightarrow> int" where
  "py_int x = (if 0 \<le> x then \<lfloor>x\<rfloor> else \<lceil>x\<rceil>)"

text \<open>\<^verbatim>\<open>xs[-n:]\<close> for \<open>n > 0\<close>: the last \<open>n\<close> elements, all of them when there are fewer.\<close>

definition last_n :: "nat \<Rightarrow> 'a list \<Rightarrow> 'a list" where
  "last_n n xs = drop (length xs - n) xs"

section \<open>RSIStrategy\<close>

text \<open>The constants \<^verbatim>\<open>__init__\<close> sets.\<close>

definition base_period :: nat where
  "base_period = 14"

definition min_order_size :: real where
  "min_order_size = 1 / 1000"

subsection \<open>calculate_rsi\<close>

text \<open>
  The value the source computes from the two running averages, at the seed and in every
  pass of the loop: 100 or 50 when there is no loss, \<^verbatim>\<open>100 - 100 / (1 + rs)\<close> otherwise.
  At the seed the source returns it at once in the no-loss case.
\<close>

definition rsi_of :: "real \<Rightarrow> real \<Rightarrow> real" where
  "rsi_of avg_gain avg_loss =
     (if avg_loss = 0 then (if avg_gain > 0 then 100 else 50)
      else 100 - 100 / (1 + avg_gain / avg_loss))"

text \<open>
  The loop \<^verbatim>\<open>for i in range(period, len(gains))\<close>, run over the pairs
  \<^verbatim>\<open>(gains[i], losses[i])\<close> from index \<open>period\<close> on. The state is
  \<^verbatim>\<open>(avg_gain, avg_loss, rsi)\<close>; the result is the last \<^verbatim>\<open>rsi\<close>.
\<close>

fun rsi_loop :: "nat \<Rightarrow> real \<times> real \<times> real \<Rightarrow> (real \<times> real) list \<Rightarrow> real" where
  "rsi_loop period (avg_gain, avg_loss, rsi) [] = rsi"
| "rsi_loop period (avg_gain, avg_loss, rsi) ((g, l) # rest) =
     (let avg_gain' = (avg_gain * (real period - 1) + g) / real period;
          avg_loss' = (avg_loss * (real period - 1) + l) / real period
      in rsi_loop period (avg_gain', avg_loss', rsi_of avg_gain' avg_loss') rest)"

text \<open>
  \<^verbatim>\<open>calculate_rsi(closes, period)\<close>, for \<open>period \<ge> 1\<close> (the strategy passes a period
  between 5 and 20). With \<open>period = 0\<close> and closes present the source takes the mean of an
  empty slice, which is NaN; that call is outside the model.
\<close>

definition calculate_rsi :: "real list \<Rightarrow> nat \<Rightarrow> real" where
  "calculate_rsi closes period =
     (if length closes < period + 1 then 50
      else
        let deltas = np_diff closes;
            gains = map (\<lambda>d. if d > 0 then d else 0) deltas;
            losses = map (\<lambda>d. if d < 0 then - d else 0) deltas;
            avg_gain = mean (take period gains);
            avg_loss = mean (take period losses)
        in if avg_loss = 0 then (if avg_gain > 0 then 100 else 50)
           else
             let rs = avg_gain / avg_loss;
                 rsi = 100 - 100 / (1 + rs)
             in rsi_loop period (avg_gain, avg_loss, rsi) (drop period (zip gains losses)))"

subsection \<open>calculate_adx\<close>

text \<open>
  The first loop, \<^verbatim>\<open>for i in range(1, len(klines))\<close>, fills three lists from each candle
  and the one before it.
\<close>

definition true_range :: "kline \<Rightarrow> kline \<Rightarrow> real" where
  "true_range prev k =
     max (max (high k - low k) \<bar>high k - close prev\<bar>) \<bar>low k - close prev\<bar>"

definition plus_move :: "kline \<Rightarrow> kline \<Rightarrow> real" where
  "plus_move prev k =
     (let up_move = high k - high prev; down_move = low prev - low k
      in if up_move > down_move \<and> up_move > 0 then up_move else 0)"

definition minus_move :: "kline \<Rightarrow> kline \<Rightarrow> real" where
  "minus_move prev k =
     (let up_move = high k - high prev; down_move = low prev - low k
      in if down_move > up_move \<and> down_move > 0 then down_move else 0)"

text \<open>\<open>pairwise f klines\<close> is \<^verbatim>\<open>[f(klines[i-1], klines[i]) for i in range(1, len(klines))]\<close>.\<close>

fun pairwise :: "(kline \<Rightarrow> kline \<Rightarrow> real) \<Rightarrow> kline list \<Rightarrow> real list" where
  "pairwise f [] = []"
| "pairwise f [k] = []"
| "pairwise f (prev # k # ks) = f prev k # pairwise f (k # ks)"

definition tr_values :: "kline list \<Rightarrow> real list" where
  "tr_values klines = pairwise true_range klines"

definition plus_dm :: "kline list \<Rightarrow> real list" where
  "plus_dm klines = pairwise plus_move klines"

definition minus_dm :: "kline list \<Rightarrow> real list" where
  "minus_dm klines = pairwise minus_move klines"

text \<open>The variables of the second loop.\<close>

record adx_state =
  atr :: real
  plus_di :: real
  minus_di :: real
  adx_values :: "real list"

text \<open>\<^verbatim>\<open>dx\<close> from the two directional indices, at the seed and in every pass.\<close>

definition dx_of :: "real \<Rightarrow> real \<Rightarrow> real" where
  "dx_of pdi mdi = (if pdi + mdi = 0 then 0 else 100 * \<bar>pdi - mdi\<bar> / (pdi + mdi))"

text \<open>Lines 75 to 86: the state before the second loop.\<close>

definition adx_seed :: "nat \<Rightarrow> real list \<Rightarrow> real list \<Rightarrow> real list \<Rightarrow> adx_state" where
  "adx_seed period trs pdm mdm =
     (let atr0 = max (mean (take period trs)) (1 / 10 ^ 10);
          pdi = np_clip (100 * mean (take period pdm) / atr0) (- (10 ^ 5)) (10 ^ 5);
          mdi = np_clip (100 * mean (take period mdm) / atr0) (- (10 ^ 5)) (10 ^ 5)
      in \<lparr>atr = atr0, plus_di = pdi, minus_di = mdi, adx_values = [dx_of pdi mdi]\<rparr>)"

text \<open>
  One pass of \<^verbatim>\<open>for i in range(period, len(tr_values))\<close>, lines 88 to 102, on
  \<^verbatim>\<open>(tr_values[i], plus_dm[i], minus_dm[i])\<close>.
\<close>

definition adx_step :: "nat \<Rightarrow> adx_state \<Rightarrow> real \<times> real \<times> real \<Rightarrow> adx_state" where
  "adx_step period st x =
     (case x of (tr, pdm, mdm) \<Rightarrow>
       let atr1 = max ((atr st * (real period - 1) + tr) / real period) (1 / 10 ^ 10);
           prev_plus_di = plus_di st;
           prev_minus_di = minus_di st;
           pdi0 = (prev_plus_di * (real period - 1) + pdm) / real period;
           mdi0 = (prev_minus_di * (real period - 1) + mdm) / real period;
           pdi = np_clip (100 * pdi0 / atr1) (- (10 ^ 5)) (10 ^ 5);
           mdi = np_clip (100 * mdi0 / atr1) (- (10 ^ 5)) (10 ^ 5)
       in \<lparr>atr = atr1, plus_di = pdi, minus_di = mdi,
           adx_values = adx_values st @ [dx_of pdi mdi]\<rparr>)"

text \<open>The second loop, over the triples from index \<open>period\<close> on.\<close>

fun adx_loop :: "nat \<Rightarrow> adx_state \<Rightarrow> (real \<times> real \<times> real) list \<Rightarrow> adx_state" where
  "adx_loop period st [] = st"
| "adx_loop period st (x # rest) = adx_loop period (adx_step period st x) rest"

text \<open>The state after the second loop: seed, then one pass for each later index.\<close>

definition adx_final :: "kline list \<Rightarrow> nat \<Rightarrow> adx_state" where
  "adx_final klines period =
     (let trs = tr_values klines; pdm = plus_dm klines; mdm = minus_dm klines
      in adx_loop period (adx_seed period trs pdm mdm)
           (drop period (zip trs (zip pdm mdm))))"

text \<open>
  \<^verbatim>\<open>calculate_adx(klines, period)\<close>. With \<open>period = 0\<close> and a candle present, the
  source takes \<^verbatim>\<open>np.mean\<close> of empty slices: \<^verbatim>\<open>atr\<close>, both indices and every
  \<^verbatim>\<open>dx\<close> are NaN, so is their mean, and the test \<^verbatim>\<open>np.isnan(adx)\<close> of line 105
  returns 0.0. In real arithmetic no NaN arises for \<open>period \<ge> 1\<close>.
\<close>

definition calculate_adx :: "kline list \<Rightarrow> nat \<Rightarrow> real" where
  "calculate_adx klines period =
     (if length klines < period + 1 then 0
      else if length (tr_values klines) < period then 0
      else if period = 0 then 0
      else mean (last_n period (adx_values (adx_final klines period))))"

subsection \<open>generate_signal\<close>

text \<open>
  Lines 122 to 125: the RSI period, \<^verbatim>\<open>base_period\<close> when no volatility is given,
  \<^verbatim>\<open>max(5, min(20, int(base_period * (1 - volatility))))\<close> otherwise.
\<close>

definition rsi_period :: "real option \<Rightarrow> int" where
  "rsi_period volatility =
     (case volatility of
        None \<Rightarrow> int base_period
      | Some v \<Rightarrow> max 5 (min 20 (py_int (real base_period * (1 - v)))))"

text \<open>Lines 132 to 138: the three thresholds, each clamped.\<close>

definition overbought_threshold :: "real \<Rightarrow> real" where
  "overbought_threshold v = max 50 (min 80 (70 - v * 10))"

definition oversold_threshold :: "real \<Rightarrow> real" where
  "oversold_threshold v = max 20 (min 50 (30 + v * 10))"

definition adx_threshold :: "real \<Rightarrow> real" where
  "adx_threshold v = max 10 (min 30 (15 + v * 10))"

text \<open>
  Line 148, \<^verbatim>\<open>quantity = 0.1 / closes[-1]\<close>, on a numpy float: a division by zero
  gives \<^verbatim>\<open>inf\<close> and a warning, no exception. \<open>None\<close> is that infinite quantity, which
  is not below any minimum (line 149).
\<close>

definition order_quantity :: "real \<Rightarrow> real option" where
  "order_quantity c = (if c = 0 then None else Some ((1 / 10) / c))"

definition below_min_order :: "real option \<Rightarrow> bool" where
  "below_min_order q = (case q of None \<Rightarrow> False | Some x \<Rightarrow> x < min_order_size)"

text \<open>
  The body of the \<^verbatim>\<open>try\<close> block, lines 112 to 154. Its arguments are what
  \<^verbatim>\<open>await self.market_data.get_klines(...)\<close> gives (a list of candles, or an exception)
  and the \<^verbatim>\<open>volatility\<close> argument, \<open>None\<close> by default. \<^verbatim>\<open>symbol\<close>, \<^verbatim>\<open>timeframe\<close>,
  \<^verbatim>\<open>limit\<close> and \<^verbatim>\<open>exchange_name\<close> only reach \<^verbatim>\<open>get_klines\<close> and the log;
  \<^verbatim>\<open>predictions\<close> is not read. With no volatility, line 132 multiplies \<^verbatim>\<open>None\<close> by 10,
  a \<open>TypeError\<close>, after both indicators have been computed.
\<close>

definition rsi_try_block :: "exn + kline list \<Rightarrow> real option \<Rightarrow> exn + signal" where
  "rsi_try_block klines_result volatility =
     (case klines_result of
        Inl e \<Rightarrow> Inl e
      | Inr klines \<Rightarrow>
          if klines = [] then Inr Hold
          else
            let closes = map close klines
            in if length closes < base_period + 1 then Inr Hold
               else
                 let period = rsi_period volatility;
                     rsi = calculate_rsi closes (nat period);
                     adx = calculate_adx klines 14
                 in (case volatility of
                       None \<Rightarrow> Inl TypeError
                     | Some v \<Rightarrow>
                         let signal =
                               (if rsi > overbought_threshold v \<and> adx > adx_threshold v then Sell
                                else if rsi < oversold_threshold v \<and> adx > adx_threshold v then Buy
                                else Hold)
                         in if signal \<noteq> Hold
                            then (if below_min_order (order_quantity (last closes)) then Inr Hold
                                  else Inr signal)
                            else Inr signal))"

text \<open>
  \<^verbatim>\<open>RSIStrategy.generate_signal\<close>: the \<^verbatim>\<open>try\<close> block, and the handler
  \<^verbatim>\<open>except Exception\<close> of lines 155 to 157, which logs the exception and returns
  \<^verbatim>\<open>'hold'\<close>. An exception that is not of class \<^verbatim>\<open>Exception\<close> passes the handler
  and reaches the caller.
\<close>

definition rsi_generate_signal :: "exn + kline list \<Rightarrow> real option \<Rightarrow> exn + signal" where
  "rsi_generate_signal klines_result volatility =
     (case rsi_try_block klines_result volatility of
        Inl e \<Rightarrow> (if is_exception e then Inr Hold else Inl e)
      | Inr s \<Rightarrow> Inr s)"

section \<open>MeanReversionStrategy\<close>

definition lookback_period :: nat where
  "lookback_period = 20"

text \<open>
  The body of the \<^verbatim>\<open>try\<close> block, lines 19 to 44. Its arguments are what
  \<^verbatim>\<open>self.market_data.get_klines(...)\<close> gives and what
  \<^verbatim>\<open>self.volatility_analyzer.analyze_volatility(symbol, exchange_name)\<close> gives, each a value
  or an exception; the analyzer is called only when there are enough candles. \<^verbatim>\<open>x ** 0.5\<close>
  on a float that is not negative is the square root.
\<close>

definition mr_try_block :: "exn + kline list \<Rightarrow> exn + real \<Rightarrow> exn + signal" where
  "mr_try_block klines_result volatility_result =
     (case klines_result of
        Inl e \<Rightarrow> Inl e
      | Inr klines \<Rightarrow>
          if length klines < lookback_period then Inr Hold
          else
            let closes = map close (last_n lookback_period klines);
                mean = sum_list closes / real (length closes);
                std = sqrt (sum_list (map (\<lambda>x. (x - mean) ^ 2) closes) / real (length closes))
            in (case volatility_result of
                  Inl e \<Rightarrow> Inl e
                | Inr symbol_volatility \<Rightarrow>
                    let threshold = 2 * (1 + symbol_volatility);
                        upper_bound = mean + threshold * std;
                        lower_bound = mean - threshold * std;
                        price = close (last klines)
                    in if price > upper_bound then Inr Sell
                       else if price < lower_bound then Inr Buy
                       else Inr Hold))"

text \<open>
  \<^verbatim>\<open>MeanReversionStrategy.generate_signal\<close>: the \<^verbatim>\<open>try\<close> block, and the handler
  \<^verbatim>\<open>except Exception\<close> of lines 45 to 47, which logs the exception and raises it again.
  An exception that is not of class \<^verbatim>\<open>Exception\<close> passes the handler unlogged. Either
  way it reaches the caller.
\<close>

definition mr_generate_signal :: "exn + kline list \<Rightarrow> exn + real \<Rightarrow> exn + signal" where
  "mr_generate_signal klines_result volatility_result =
     (case mr_try_block klines_result volatility_result of
        Inl e \<Rightarrow> (if is_exception e then Inl e else Inl e)
      | Inr s \<Rightarrow> Inr s)"

section \<open>The specification's readings, for comparison\<close>

text \<open>
  The adaptive period as the specification words it:
  \<^verbatim>\<open>clamp(round(basePeriod * (1 - volatility)), 5, 20)\<close>, rounding to the nearest integer.
\<close>

definition spec_adaptive_period :: "real \<Rightarrow> int" where
  "spec_adaptive_period v = max 5 (min 20 (round (14 * (1 - v))))"

text \<open>
  The ADX recurrence as the specification's claim words it: the smoothing runs on an
  accumulator of directional movement, and the index is that accumulator divided by the
  refreshed \<^verbatim>\<open>atr\<close>, times 100, clipped.
\<close>

record spec_adx_state =
  s_atr :: real
  s_plus_dm :: real
  s_minus_dm :: real
  s_plus_di :: real
  s_minus_di :: real
  s_adx_values :: "real list"

definition spec_adx_seed :: "nat \<Rightarrow> real list \<Rightarrow> real list \<Rightarrow> real list \<Rightarrow> spec_adx_state" where
  "spec_adx_seed period trs pdm mdm =
     (let atr0 = max (mean (take period trs)) (1 / 10 ^ 10);
          sp = mean (take period pdm);
          sm = mean (take period mdm);
          pdi = np_clip (100 * sp / atr0) (- (10 ^ 5)) (10 ^ 5);
          mdi = np_clip (100 * sm / atr0) (- (10 ^ 5)) (10 ^ 5)
      in \<lparr>s_atr = atr0, s_plus_dm = sp, s_minus_dm = sm, s_plus_di = pdi, s_minus_di = mdi,
          s_adx_values = [dx_of pdi mdi]\<rparr>)"

definition spec_adx_step ::
  "nat \<Rightarrow> spec_adx_state \<Rightarrow> real \<times> real \<times> real \<Rightarrow> spec_adx_state" where
  "spec_adx_step period st x =
     (case x of (tr, pdm, mdm) \<Rightarrow>
       let atr1 = max ((s_atr st * (real period - 1) + tr) / real period) (1 / 10 ^ 10);
           sp = (s_plus_dm st * (real period - 1) + pdm) / real period;
           sm = (s_minus_dm st * (real period - 1) + mdm) / real period;
           pdi = np_clip (100 * sp / atr1) (- (10 ^ 5)) (10 ^ 5);
           mdi = np_clip (100 * sm / atr1) (- (10 ^ 5)) (10 ^ 5)
       in \<lparr>s_atr = atr1, s_plus_dm = sp, s_minus_dm = sm, s_plus_di = pdi, s_minus_di = mdi,
           s_adx_values = s_adx_values st @ [dx_of pdi mdi]\<rparr>)"

fun spec_adx_loop ::
  "nat \<Rightarrow> spec_adx_state \<Rightarrow> (real \<times> real \<times> real) list \<Rightarrow> spec_adx_state" where
  "spec_adx_loop period st [] = st"
| "spec_adx_loop period st (x # rest) = spec_adx_loop period (spec_adx_step period st x) rest"

definition spec_adx_final :: "kline list \<Rightarrow> nat \<Rightarrow> spec_adx_state" where
  "spec_adx_final klines period =
     (let trs = tr_values klines; pdm = plus_dm klines; mdm = minus_dm klines
      in spec_adx_loop period (spec_adx_seed period trs pdm mdm)
           (drop period (zip trs (zip pdm mdm))))"

section \<open>Example inputs\<close>

text \<open>A candle whose open equals its close, at time 0 and with volume 1.\<close>

definition candle :: "real \<Rightarrow> real \<Rightarrow> real \<Rightarrow> kline" where
  "candle h l c = \<lparr>timestamp = 0, openp = c, high = h, low = l, close = c, volume = 1\<rparr>"

text \<open>Fifteen candles, each one unit above the one before; the first closes at \<open>b\<close>.\<close>

definition rising_klines :: "real \<Rightarrow> kline list" where
  "rising_klines b = map (\<lambda>i. candle (b + real i) (b + real i - 1) (b + real i)) [0..<15]"

text \<open>Fifteen candles, each one unit below the one before; the first closes at \<open>b\<close>.\<close>

definition falling_klines :: "real \<Rightarrow> kline list" where
  "falling_klines b = map (\<lambda>i. candle (b - real i) (b - real i - 1) (b - real i)) [0..<15]"

text \<open>Four candles that move up, down and up again.\<close>

definition zigzag_klines :: "kline list" where
  "zigzag_klines = [candle 10 8 9, candle 12 9 11, candle 11 7 8, candle 13 8 12]"

text \<open>Nineteen flat candles at 100 and a last one at 200, as in the specification's test.\<close>

definition spike_klines :: "kline list" where
  "spike_klines = replicate 19 (candle 100 100 100) @ [candle 200 200 200]"

section \<open>Exceptions and missing input\<close>

lemma rsi_generate_signal_raises_iff:
  "rsi_generate_signal klines_result volatility = Inl e \<longleftrightarrow>
     klines_result = Inl e \<and> \<not> is_exception e"
proof (cases klines_result)
  case (Inl x)
  then show ?thesis
    by (auto simp: rsi_generate_signal_def rsi_try_block_def)
next
  case (Inr klines)
  then show ?thesis
    by (cases volatility)
       (simp_all add: rsi_generate_signal_def rsi_try_block_def Let_def is_exception_def)
qed

lemma rsi_generate_signal_fetch_error:
  "rsi_generate_signal (Inl e) volatility = (if is_exception e then Inr Hold else Inl e)"
  by (simp add: rsi_generate_signal_def rsi_try_block_def)

lemma mr_generate_signal_fetch_error: "mr_generate_signal (Inl e) volatility_result = Inl e"
  by (simp add: mr_generate_signal_def mr_try_block_def)

lemma mr_generate_signal_volatility_error:
  "20 \<le> length klines \<Longrightarrow> mr_generate_signal (Inr klines) (Inl e) = Inl e"
  by (simp add: mr_generate_signal_def mr_try_block_def lookback_period_def Let_def)

text \<open>
  C1, as the code has it. \<^verbatim>\<open>RSIStrategy.generate_signal\<close> catches every exception of class
  \<^verbatim>\<open>Exception\<close> and answers it with \<^verbatim>\<open>'hold'\<close>: an exception leaves it only when the
  awaited candle fetch raises one that is not of class \<^verbatim>\<open>Exception\<close>, such as a
  cancellation, and otherwise it returns one of the three signals.
  \<^verbatim>\<open>MeanReversionStrategy.generate_signal\<close> recovers nothing: an exception of the fetch, or
  of the volatility query (made once there are at least 20 candles), reaches the caller.
\<close>

theorem generate_signal_exceptions:
  "(rsi_generate_signal klines_result volatility = Inl e \<longleftrightarrow>
      klines_result = Inl e \<and> \<not> is_exception e) \<and>
   (is_exception e \<longrightarrow> rsi_generate_signal (Inl e) volatility = Inr Hold) \<and>
   mr_generate_signal (Inl e) volatility_result = Inl e \<and>
   (20 \<le> length klines \<longrightarrow> mr_generate_signal (Inr klines) (Inl e) = Inl e)"
  using rsi_generate_signal_raises_iff [of klines_result volatility e]
    rsi_generate_signal_fetch_error [of e volatility]
    mr_generate_signal_fetch_error [of e volatility_result]
    mr_generate_signal_volatility_error [of klines e]
  by simp

text \<open>
  A cancelled fetch reaches the caller of the RSI strategy; a failed fetch of class
  \<^verbatim>\<open>Exception\<close> is answered with \<^verbatim>\<open>'hold'\<close>; the mean-reversion strategy passes both a
  failed fetch and a failed volatility query on.
\<close>

theorem generate_signal_exceptions_witness:
  "\<not> is_exception CancelledError \<and>
   rsi_generate_signal (Inl CancelledError) (Some 0) = Inl CancelledError \<and>
   is_exception CollaboratorError \<and>
   rsi_generate_signal (Inl CollaboratorError) (Some 0) = Inr Hold \<and>
   mr_generate_signal (Inl CollaboratorError) (Inr 0) = Inl CollaboratorError \<and>
   20 \<le> length (replicate 20 (candle 1 1 1)) \<and>
   mr_generate_signal (Inr (replicate 20 (candle 1 1 1))) (Inl TypeError) = Inl TypeError"
proof -
  have c: "\<not> is_exception CancelledError" by (simp add: is_exception_def)
  have x: "is_exception CollaboratorError" by (simp add: is_exception_def)
  have h: "20 \<le> length (replicate 20 (candle 1 1 1))" by simp
  note t = generate_signal_exceptions
    [of "Inl CancelledError" "Some 0" CancelledError "Inr 0" "replicate 20 (candle 1 1 1)"]
  note u = generate_signal_exceptions
    [of "Inl CollaboratorError" "Some 0" CollaboratorError "Inr 0" "replicate 20 (candle 1 1 1)"]
  note w = generate_signal_exceptions
    [of "Inl TypeError" "Some 0" TypeError "Inr 0" "replicate 20 (candle 1 1 1)"]
  from t c have 1: "rsi_generate_signal (Inl CancelledError) (Some 0) = Inl CancelledError"
    by blast
  from u x have 2: "rsi_generate_signal (Inl CollaboratorError) (Some 0) = Inr Hold"
    by blast
  from u have 3: "mr_generate_signal (Inl CollaboratorError) (Inr 0) = Inl CollaboratorError"
    by blast
  from w h
  have 4: "mr_generate_signal (Inr (replicate 20 (candle 1 1 1))) (Inl TypeError) = Inl TypeError"
    by blast
  from c x h 1 2 3 4 show ?thesis by blast
qed

text \<open>
  C1 as stated fails for the mean-reversion strategy: with twenty candles and a volatility
  query that raises, the exception reaches the caller.
\<close>

theorem mean_reversion_reraises:
  "mr_generate_signal (Inr (replicate 20 (candle 1 1 1))) (Inl CollaboratorError)
     = Inl CollaboratorError"
  by (simp add: mr_generate_signal_def mr_try_block_def lookback_period_def Let_def)

text \<open>
  C2, as the code has it. A missing volatility is not surfaced as an error.
  \<^verbatim>\<open>volatility\<close> is \<open>None\<close> by default and the RSI period then stays at the base period
  14. Whenever the candle fetch returns, the call returns one of the three signals; when
  the fetch raises an exception of class \<^verbatim>\<open>Exception\<close>, the call returns \<^verbatim>\<open>'hold'\<close>.
\<close>

theorem rsi_missing_volatility_no_error:
  "rsi_period None = 14 \<and>
   (\<exists>s. rsi_generate_signal (Inr klines) None = Inr s) \<and>
   rsi_generate_signal (Inl e) None = (if is_exception e then Inr Hold else Inl e)"
proof -
  have "rsi_period None = 14" by (simp add: rsi_period_def base_period_def)
  moreover have "\<exists>s. rsi_generate_signal (Inr klines) None = Inr s"
    by (simp add: rsi_generate_signal_def rsi_try_block_def Let_def is_exception_def)
  moreover note rsi_generate_signal_fetch_error [of e None]
  ultimately show ?thesis by blast
qed

lemma length_rising_klines: "length (rising_klines b) = 15"
  by (simp add: rising_klines_def)

text \<open>C2 as stated fails: fifteen candles and no volatility give \<^verbatim>\<open>'hold'\<close>, not an error.\<close>

theorem rsi_missing_volatility_example:
  "rsi_generate_signal (Inr (rising_klines 10)) None = Inr Hold"
  by (simp add: rsi_generate_signal_def rsi_try_block_def length_rising_klines base_period_def
      Let_def rising_klines_def is_exception_def)

section \<open>The adaptive period and the thresholds\<close>

text \<open>
  C3, as the code has it. For every supplied volatility \<open>v\<close> the period is
  \<open>14 * (1 - v)\<close> truncated by \<^verbatim>\<open>int\<close>, not rounded, then clamped into 5 to 20. After the
  clamp, truncation towards zero and rounding down agree, so the period is the floor of
  \<open>14 * (1 - v)\<close>, clamped.
\<close>

theorem rsi_period_truncates:
  "rsi_period (Some v) = max 5 (min 20 \<lfloor>14 * (1 - v)\<rfloor>) \<and>
   5 \<le> rsi_period (Some v) \<and> rsi_period (Some v) \<le> 20"
proof (cases "0 \<le> 14 * (1 - v)")
  case True
  then show ?thesis by (simp add: rsi_period_def py_int_def base_period_def)
next
  case False
  then have neg: "14 * (1 - v) < 0" by simp
  then have "\<lceil>14 * (1 - v)\<rceil> \<le> 0" by (simp add: ceiling_le_iff)
  moreover from neg have "\<lfloor>14 * (1 - v)\<rfloor> \<le> 0" by (simp add: floor_le_iff)
  ultimately show ?thesis using False
    by (simp add: rsi_period_def py_int_def base_period_def)
qed

text \<open>
  C3 as stated fails at \<open>v = 1/10\<close>: \<open>14 * 0.9 = 12.6\<close>, which the code truncates to 12 and
  the specification rounds to 13.
\<close>

theorem rsi_period_not_rounded:
  "rsi_period (Some (1 / 10)) = 12 \<and> spec_adaptive_period (1 / 10) = 13 \<and>
   rsi_period (Some (1 / 10)) \<noteq> spec_adaptive_period (1 / 10)"
  by (simp add: rsi_period_def py_int_def base_period_def spec_adaptive_period_def round_def)

text \<open>
  C7. For every volatility \<open>v\<close>, so for every \<open>v \<ge> 0\<close>, the three thresholds are the
  clamped values and lie in their ranges: overbought in 50 to 80, oversold in 20 to 50, the
  ADX threshold in 10 to 30.
\<close>

theorem thresholds_within_clamps:
  "overbought_threshold v = max 50 (min 80 (70 - v * 10)) \<and>
   50 \<le> overbought_threshold v \<and> overbought_threshold v \<le> 80 \<and>
   oversold_threshold v = max 20 (min 50 (30 + v * 10)) \<and>
   20 \<le> oversold_threshold v \<and> oversold_threshold v \<le> 50 \<and>
   adx_threshold v = max 10 (min 30 (15 + v * 10)) \<and>
   10 \<le> adx_threshold v \<and> adx_threshold v \<le> 30"
  by (simp add: overbought_threshold_def oversold_threshold_def adx_threshold_def)

section \<open>The decision of the RSI strategy\<close>

text \<open>
  With at least 15 candles and a volatility, the \<^verbatim>\<open>try\<close> block runs to its last line.
  The thresholds and the veto are written out: the quantity is 0.1 divided by the latest
  close, infinite and so not below the minimum when that close is zero, and the minimum
  order size is 0.001.
\<close>

lemma below_min_order_explicit:
  "below_min_order (order_quantity c) = (c \<noteq> 0 \<and> (1 / 10) / c < 1 / 1000)"
  by (simp add: below_min_order_def order_quantity_def min_order_size_def)

lemma rsi_generate_signal_enough:
  assumes "15 \<le> length klines"
  shows "rsi_generate_signal (Inr klines) (Some v) = Inr
     (let closes = map close klines;
          rsi = calculate_rsi closes (nat (rsi_period (Some v)));
          adx = calculate_adx klines 14;
          overbought = max 50 (min 80 (70 - v * 10));
          oversold = max 20 (min 50 (30 + v * 10));
          adx_min = max 10 (min 30 (15 + v * 10));
          quantity_below_min = (last closes \<noteq> 0 \<and> (1 / 10) / last closes < 1 / 1000)
      in if rsi > overbought \<and> adx > adx_min
         then (if quantity_below_min then Hold else Sell)
         else if rsi < oversold \<and> adx > adx_min
         then (if quantity_below_min then Hold else Buy)
         else Hold)"
proof -
  from assms have ne: "klines \<noteq> []" by auto
  from assms have len: "\<not> length klines < base_period + 1" by (simp add: base_period_def)
  have "rsi_generate_signal (Inr klines) (Some v) = Inr
     (let closes = map close klines;
          rsi = calculate_rsi closes (nat (rsi_period (Some v)));
          adx = calculate_adx klines 14;
          overbought = overbought_threshold v;
          oversold = oversold_threshold v;
          adx_min = adx_threshold v;
          quantity_below_min = below_min_order (order_quantity (last closes))
      in if rsi > overbought \<and> adx > adx_min
         then (if quantity_below_min then Hold else Sell)
         else if rsi < oversold \<and> adx > adx_min
         then (if quantity_below_min then Hold else Buy)
         else Hold)"
    using ne len by (simp add: rsi_generate_signal_def rsi_try_block_def Let_def)
  then show ?thesis
    by (simp only: Let_def below_min_order_explicit overbought_threshold_def
        oversold_threshold_def adx_threshold_def)
qed

lemma length_falling_klines: "length (falling_klines b) = 15"
  by (simp add: falling_klines_def)

lemma close_last_rising_klines: "close (last (rising_klines b)) = b + 14"
  by (simp add: rising_klines_def candle_def last_map upt_rec [of 0] numeral_eq_Suc)

lemma close_last_falling_klines: "close (last (falling_klines b)) = b - 14"
  by (simp add: falling_klines_def candle_def last_map upt_rec [of 0] numeral_eq_Suc)

lemma last_closes_rising_klines: "last (map close (rising_klines b)) = b + 14"
  using close_last_rising_klines [of b] by (simp add: last_map rising_klines_def)

lemma last_closes_falling_klines: "last (map close (falling_klines b)) = b - 14"
  using close_last_falling_klines [of b] by (simp add: last_map falling_klines_def)

lemma rsi_period_fifth: "rsi_period (Some (1 / 5)) = 11"
  by (simp add: rsi_period_def py_int_def base_period_def)

text \<open>The indicators on the example series, with the period 11 that volatility 0.2 gives.\<close>

lemma indicators_rising_10:
  "calculate_rsi (map close (rising_klines 10)) 11 = 100"
  "calculate_adx (rising_klines 10) 14 = 100"
  by code_simp+

lemma indicators_rising_86:
  "calculate_rsi (map close (rising_klines 86)) 11 = 100"
  "calculate_adx (rising_klines 86) 14 = 100"
  by code_simp+

lemma indicators_rising_110:
  "calculate_rsi (map close (rising_klines 110)) 11 = 100"
  "calculate_adx (rising_klines 110) 14 = 100"
  by code_simp+

lemma indicators_falling_50:
  "calculate_rsi (map close (falling_klines 50)) 11 = 0"
  "calculate_adx (falling_klines 50) 14 = 100"
  by code_simp+

text \<open>
  C5. With at least \<^verbatim>\<open>base_period + 1\<close>, that is 15, candles and a volatility \<open>v\<close>, the
  signal is \<^verbatim>\<open>'sell'\<close> when the RSI is above the overbought threshold and the ADX above
  its threshold, \<^verbatim>\<open>'buy'\<close> when the RSI is below the oversold threshold and the ADX above
  its threshold, \<^verbatim>\<open>'hold'\<close> otherwise; a sell or a buy becomes \<^verbatim>\<open>'hold'\<close> exactly when
  the order quantity, 0.1 divided by the latest close, is below the minimum order size 0.001.
\<close>

theorem rsi_signal_decision:
  assumes "15 \<le> length klines"
  shows "rsi_generate_signal (Inr klines) (Some v) = Inr
     (let closes = map close klines;
          rsi = calculate_rsi closes (nat (rsi_period (Some v)));
          adx = calculate_adx klines 14;
          overbought = max 50 (min 80 (70 - v * 10));
          oversold = max 20 (min 50 (30 + v * 10));
          adx_min = max 10 (min 30 (15 + v * 10));
          quantity_below_min = (last closes \<noteq> 0 \<and> (1 / 10) / last closes < 1 / 1000)
      in if rsi > overbought \<and> adx > adx_min
         then (if quantity_below_min then Hold else Sell)
         else if rsi < oversold \<and> adx > adx_min
         then (if quantity_below_min then Hold else Buy)
         else Hold)"
  using assms by (rule rsi_generate_signal_enough)

text \<open>
  Rising candles that end at 24 give a sell, falling candles that end at 36 a buy, and
  rising candles that end at 124 a sell that the veto turns into \<^verbatim>\<open>'hold'\<close>.
\<close>

theorem rsi_signal_decision_witness:
  "15 \<le> length (rising_klines 10) \<and>
   rsi_generate_signal (Inr (rising_klines 10)) (Some (1 / 5)) = Inr Sell \<and>
   15 \<le> length (falling_klines 50) \<and>
   rsi_generate_signal (Inr (falling_klines 50)) (Some (1 / 5)) = Inr Buy \<and>
   15 \<le> length (rising_klines 110) \<and>
   rsi_generate_signal (Inr (rising_klines 110)) (Some (1 / 5)) = Inr Hold"
proof -
  have a: "15 \<le> length (rising_klines 10)" by (simp add: length_rising_klines)
  have b: "15 \<le> length (falling_klines 50)" by (simp add: length_falling_klines)
  have c: "15 \<le> length (rising_klines 110)" by (simp add: length_rising_klines)
  from rsi_signal_decision [OF a, of "1 / 5"]
  have 1: "rsi_generate_signal (Inr (rising_klines 10)) (Some (1 / 5)) = Inr Sell"
    by (simp add: Let_def rsi_period_fifth indicators_rising_10 last_closes_rising_klines)
  from rsi_signal_decision [OF b, of "1 / 5"]
  have 2: "rsi_generate_signal (Inr (falling_klines 50)) (Some (1 / 5)) = Inr Buy"
    by (simp add: Let_def rsi_period_fifth indicators_falling_50 last_closes_falling_klines)
  from rsi_signal_decision [OF c, of "1 / 5"]
  have 3: "rsi_generate_signal (Inr (rising_klines 110)) (Some (1 / 5)) = Inr Hold"
    by (simp add: Let_def rsi_period_fifth indicators_rising_110 last_closes_rising_klines)
  from a b c 1 2 3 show ?thesis by blast
qed

section \<open>The minimum-order veto\<close>

lemma below_min_order_iff: "0 < c \<Longrightarrow> below_min_order (order_quantity c) \<longleftrightarrow> 100 < c"
  by (simp add: below_min_order_def order_quantity_def min_order_size_def field_simps)

text \<open>
  C10. The quantity the veto tests is 0.1 divided by the latest close. For a positive latest
  close it is below the minimum order size 0.001 precisely when that close exceeds 100. So
  with at least 15 candles and a volatility the strategy returns \<^verbatim>\<open>'hold'\<close> when the latest
  close exceeds 100, whatever the indicators say, and returns the decision of the
  indicators unchanged when the latest close is positive and at most 100.
\<close>

theorem min_order_veto:
  assumes len: "15 \<le> length klines" and pos: "0 < close (last klines)"
  shows "order_quantity (close (last klines)) = Some ((1 / 10) / close (last klines)) \<and>
     (below_min_order (order_quantity (close (last klines))) \<longleftrightarrow> 100 < close (last klines)) \<and>
     rsi_generate_signal (Inr klines) (Some v) = Inr
       (let rsi = calculate_rsi (map close klines) (nat (rsi_period (Some v)));
            adx = calculate_adx klines 14;
            overbought = max 50 (min 80 (70 - v * 10));
            oversold = max 20 (min 50 (30 + v * 10));
            adx_min = max 10 (min 30 (15 + v * 10))
        in if 100 < close (last klines) then Hold
           else if rsi > overbought \<and> adx > adx_min then Sell
           else if rsi < oversold \<and> adx > adx_min then Buy
           else Hold)"
proof -
  from len have ne: "klines \<noteq> []" by auto
  then have l: "last (map close klines) = close (last klines)" by (simp add: last_map)
  have q: "order_quantity (close (last klines)) = Some ((1 / 10) / close (last klines))"
    using pos by (simp add: order_quantity_def)
  have iff: "below_min_order (order_quantity (close (last klines))) \<longleftrightarrow> 100 < close (last klines)"
    using pos by (rule below_min_order_iff)
  from pos have veto: "(1 / 10) / close (last klines) < 1 / 1000 \<longleftrightarrow> 100 < close (last klines)"
    by (simp add: field_simps)
  from pos have nz: "close (last klines) \<noteq> 0" by simp
  have e: "rsi_generate_signal (Inr klines) (Some v) = Inr
       (let rsi = calculate_rsi (map close klines) (nat (rsi_period (Some v)));
            adx = calculate_adx klines 14;
            overbought = max 50 (min 80 (70 - v * 10));
            oversold = max 20 (min 50 (30 + v * 10));
            adx_min = max 10 (min 30 (15 + v * 10))
        in if 100 < close (last klines) then Hold
           else if rsi > overbought \<and> adx > adx_min then Sell
           else if rsi < oversold \<and> adx > adx_min then Buy
           else Hold)"
    unfolding rsi_generate_signal_enough [OF len] Let_def l
    using nz veto by simp
  from q iff e show ?thesis by (intro conjI)
qed

text \<open>
  Rising candles that end at 124: the RSI is 100 and the ADX is 100, above the thresholds
  68 and 17, so the indicators say sell, and the veto turns it into \<^verbatim>\<open>'hold'\<close>. Rising
  candles that end at 100, the largest close without veto: the same indicators, and the
  sell is returned.
\<close>

theorem min_order_veto_witness:
  "15 \<le> length (rising_klines 110) \<and>
   close (last (rising_klines 110)) = 124 \<and>
   calculate_rsi (map close (rising_klines 110)) 11 = 100 \<and>
   calculate_adx (rising_klines 110) 14 = 100 \<and>
   below_min_order (order_quantity (close (last (rising_klines 110)))) \<and>
   rsi_generate_signal (Inr (rising_klines 110)) (Some (1 / 5)) = Inr Hold \<and>
   15 \<le> length (rising_klines 86) \<and>
   close (last (rising_klines 86)) = 100 \<and>
   calculate_rsi (map close (rising_klines 86)) 11 = 100 \<and>
   calculate_adx (rising_klines 86) 14 = 100 \<and>
   \<not> below_min_order (order_quantity (close (last (rising_klines 86)))) \<and>
   rsi_generate_signal (Inr (rising_klines 86)) (Some (1 / 5)) = Inr Sell"
proof -
  have h1: "15 \<le> length (rising_klines 110)" by (simp add: length_rising_klines)
  have c1: "close (last (rising_klines 110)) = 124" by (simp add: close_last_rising_klines)
  then have p1: "0 < close (last (rising_klines 110))" by simp
  have h2: "15 \<le> length (rising_klines 86)" by (simp add: length_rising_klines)
  have c2: "close (last (rising_klines 86)) = 100" by (simp add: close_last_rising_klines)
  then have p2: "0 < close (last (rising_klines 86))" by simp
  note t1 = min_order_veto [OF h1 p1, of "1 / 5"]
  note t2 = min_order_veto [OF h2 p2, of "1 / 5"]
  from t1 [THEN conjunct2, THEN conjunct1]
  have b1: "below_min_order (order_quantity (close (last (rising_klines 110))))"
    by (simp add: c1)
  from t2 [THEN conjunct2, THEN conjunct1]
  have b2: "\<not> below_min_order (order_quantity (close (last (rising_klines 86))))"
    by (simp add: c2)
  from t1 [THEN conjunct2, THEN conjunct2]
  have r1: "rsi_generate_signal (Inr (rising_klines 110)) (Some (1 / 5)) = Inr Hold"
    by (simp add: Let_def c1)
  from t2 [THEN conjunct2, THEN conjunct2]
  have r2: "rsi_generate_signal (Inr (rising_klines 86)) (Some (1 / 5)) = Inr Sell"
    by (simp add: Let_def c2 rsi_period_fifth indicators_rising_86)
  from h1 c1 indicators_rising_110 b1 r1 h2 c2 indicators_rising_86 b2 r2
  show ?thesis by (intro conjI)
qed

section \<open>calculate_rsi on a rising series\<close>

lemma length_np_diff: "length (np_diff xs) = length xs - 1"
  by (induction xs rule: np_diff.induct) simp_all

lemma np_diff_pos: "sorted_wrt (<) xs \<Longrightarrow> d \<in> set (np_diff xs) \<Longrightarrow> 0 < d"
  by (induction xs rule: np_diff.induct) auto

lemma sum_list_all_zero: "(\<And>x. x \<in> set xs \<Longrightarrow> x = (0::real)) \<Longrightarrow> sum_list xs = 0"
  by (induction xs) simp_all

lemma sum_list_all_pos:
  "xs \<noteq> [] \<Longrightarrow> (\<And>x. x \<in> set xs \<Longrightarrow> (0::real) < x) \<Longrightarrow> 0 < sum_list xs"
proof (induction xs)
  case Nil
  then show ?case by simp
next
  case (Cons a xs)
  show ?case
  proof (cases "xs = []")
    case True
    with Cons.prems show ?thesis by simp
  next
    case False
    with Cons have "0 < sum_list xs" by simp
    moreover from Cons.prems have "0 < a" by simp
    ultimately show ?thesis by simp
  qed
qed

text \<open>
  C9. On strictly increasing closes, more of them than \<open>period\<close>, with \<open>period \<ge> 1\<close>,
  \<^verbatim>\<open>calculate_rsi\<close> returns exactly 100: every loss is zero and every gain positive, so
  the seed averages already have no loss and a positive gain, and line 30 returns 100.
\<close>

theorem calculate_rsi_increasing:
  assumes inc: "sorted_wrt (<) closes" and len: "period < length closes" and p: "1 \<le> period"
  shows "calculate_rsi closes period = 100"
proof -
  define deltas where "deltas = np_diff closes"
  have pos: "\<And>d. d \<in> set deltas \<Longrightarrow> 0 < d"
    unfolding deltas_def using inc by (rule np_diff_pos)
  have gains: "map (\<lambda>d. if d > 0 then d else 0) deltas = deltas"
    using pos by (simp add: map_idI)
  have losses: "map (\<lambda>d. if d < 0 then - d else 0) deltas = map (\<lambda>d. 0) deltas"
  proof (rule map_cong [OF refl])
    fix d assume "d \<in> set deltas"
    then have "0 < d" by (rule pos)
    then show "(if d < 0 then - d else 0) = 0" by simp
  qed
  have "length deltas = length closes - 1"
    by (simp add: deltas_def length_np_diff)
  with len p have dl: "0 < length deltas" by simp
  then have ne: "take period deltas \<noteq> []"
    using p by auto
  have "\<And>x. x \<in> set (take period deltas) \<Longrightarrow> 0 < x"
    using pos by (blast dest: in_set_takeD)
  with ne have "0 < sum_list (take period deltas)"
    by (rule sum_list_all_pos)
  moreover have "0 < length (take period deltas)" using ne by simp
  ultimately have g: "0 < mean (take period deltas)"
    unfolding mean_def by (simp only: divide_pos_pos of_nat_0_less_iff)
  have "\<And>x. x \<in> set (take period (map (\<lambda>d. 0::real) deltas)) \<Longrightarrow> x = 0"
    by (auto dest: in_set_takeD)
  then have "sum_list (take period (map (\<lambda>d. 0::real) deltas)) = 0"
    by (rule sum_list_all_zero)
  then have l: "mean (take period (map (\<lambda>d. 0::real) deltas)) = 0"
    unfolding mean_def by simp
  from len have nl: "\<not> length closes < period + 1" by simp
  have "calculate_rsi closes period =
      (let gains = map (\<lambda>d. if d > 0 then d else 0) deltas;
            losses = map (\<lambda>d. if d < 0 then - d else 0) deltas;
            avg_gain = mean (take period gains);
            avg_loss = mean (take period losses)
        in if avg_loss = 0 then (if avg_gain > 0 then 100 else 50)
           else
             let rs = avg_gain / avg_loss;
                 rsi = 100 - 100 / (1 + rs)
             in rsi_loop period (avg_gain, avg_loss, rsi) (drop period (zip gains losses)))"
    using nl unfolding calculate_rsi_def deltas_def by (simp only: if_False Let_def)
  also have "\<dots> = 100"
    unfolding gains losses Let_def using g l by simp
  finally show ?thesis .
qed

theorem calculate_rsi_increasing_witness:
  "sorted_wrt (<) [1, 2, 4 :: real] \<and> 2 < length [1, 2, 4 :: real] \<and> (1 :: nat) \<le> 2 \<and>
   calculate_rsi [1, 2, 4] 2 = 100"
proof -
  have a: "sorted_wrt (<) [1, 2, 4 :: real]" by simp
  have b: "2 < length [1, 2, 4 :: real]" by simp
  have c: "(1 :: nat) \<le> 2" by simp
  from calculate_rsi_increasing [OF a b c] a b c show ?thesis by blast
qed

section \<open>calculate_adx on short and on flat series\<close>

lemma pairwise_zero:
  "(\<And>p k. p \<in> set ks \<Longrightarrow> k \<in> set ks \<Longrightarrow> f p k = 0) \<Longrightarrow> x \<in> set (pairwise f ks) \<Longrightarrow> x = 0"
  by (induction f ks rule: pairwise.induct) auto

lemma plus_move_flat: "high k = high p \<Longrightarrow> plus_move p k = 0"
  by (simp add: plus_move_def)

lemma minus_move_flat: "low k = low p \<Longrightarrow> minus_move p k = 0"
  by (simp add: minus_move_def)

lemma np_clip_zero: "lo \<le> 0 \<Longrightarrow> 0 \<le> hi \<Longrightarrow> np_clip 0 lo hi = 0"
  by (simp add: np_clip_def)

lemma adx_step_flat:
  assumes "plus_di st = 0" "minus_di st = 0"
  shows "plus_di (adx_step period st (tr, 0, 0)) = 0"
    and "minus_di (adx_step period st (tr, 0, 0)) = 0"
    and "adx_values (adx_step period st (tr, 0, 0)) = adx_values st @ [0]"
  using assms by (simp_all add: adx_step_def Let_def np_clip_zero dx_of_def)

lemma adx_loop_flat:
  assumes "plus_di st = 0" "minus_di st = 0" "\<forall>x \<in> set (adx_values st). x = 0"
    and "\<forall>t \<in> set xs. snd t = (0, 0)"
  shows "\<forall>x \<in> set (adx_values (adx_loop period st xs)). x = 0"
  using assms
proof (induction xs arbitrary: st)
  case Nil
  then show ?case by simp
next
  case (Cons a xs)
  from Cons.prems(4) obtain tr where a: "a = (tr, 0, 0)" by (cases a) auto
  let ?st = "adx_step period st a"
  have 1: "plus_di ?st = 0" and 2: "minus_di ?st = 0"
    unfolding a using Cons.prems(1,2) by (rule adx_step_flat)+
  have "adx_values ?st = adx_values st @ [0]"
    unfolding a using Cons.prems(1,2) by (rule adx_step_flat)
  with Cons.prems(3) have 3: "\<forall>x \<in> set (adx_values ?st). x = 0" by simp
  from Cons.prems(4) have 4: "\<forall>t \<in> set xs. snd t = (0, 0)" by simp
  from Cons.IH [OF 1 2 3 4] show ?case by simp
qed

lemma adx_seed_flat:
  assumes "sum_list (take period pdm) = 0" "sum_list (take period mdm) = 0"
  shows "plus_di (adx_seed period trs pdm mdm) = 0"
    and "minus_di (adx_seed period trs pdm mdm) = 0"
    and "adx_values (adx_seed period trs pdm mdm) = [0]"
  using assms by (simp_all add: adx_seed_def Let_def mean_def np_clip_zero dx_of_def)

lemma calculate_adx_flat:
  assumes pz: "\<And>x. x \<in> set (plus_dm klines) \<Longrightarrow> x = 0"
    and mz: "\<And>x. x \<in> set (minus_dm klines) \<Longrightarrow> x = 0"
  shows "calculate_adx klines period = 0"
proof -
  have sp: "sum_list (take period (plus_dm klines)) = 0"
    by (rule sum_list_all_zero) (blast dest: in_set_takeD pz)
  have sm: "sum_list (take period (minus_dm klines)) = 0"
    by (rule sum_list_all_zero) (blast dest: in_set_takeD mz)
  let ?seed = "adx_seed period (tr_values klines) (plus_dm klines) (minus_dm klines)"
  let ?xs = "drop period (zip (tr_values klines) (zip (plus_dm klines) (minus_dm klines)))"
  have s1: "plus_di ?seed = 0" and s2: "minus_di ?seed = 0"
    using sp sm by (rule adx_seed_flat)+
  have "adx_values ?seed = [0]" using sp sm by (rule adx_seed_flat)
  then have s3: "\<forall>x \<in> set (adx_values ?seed). x = 0" by simp
  have s4: "\<forall>t \<in> set ?xs. snd t = (0, 0)"
  proof
    fix t assume "t \<in> set ?xs"
    then have t: "t \<in> set (zip (tr_values klines) (zip (plus_dm klines) (minus_dm klines)))"
      by (rule in_set_dropD)
    obtain tr p m where e: "t = (tr, p, m)" by (cases t) auto
    from t have "(p, m) \<in> set (zip (plus_dm klines) (minus_dm klines))"
      unfolding e by (rule set_zip_rightD)
    then have "p \<in> set (plus_dm klines)" and "m \<in> set (minus_dm klines)"
      by (rule set_zip_leftD, rule set_zip_rightD)
    then have "p = 0" and "m = 0" using pz mz by blast+
    then show "snd t = (0, 0)" by (simp add: e)
  qed
  have "\<forall>x \<in> set (adx_values (adx_loop period ?seed ?xs)). x = 0"
    using s1 s2 s3 s4 by (rule adx_loop_flat)
  then have all: "\<And>x. x \<in> set (adx_values (adx_final klines period)) \<Longrightarrow> x = 0"
    by (simp add: adx_final_def Let_def)
  have "sum_list (last_n period (adx_values (adx_final klines period))) = 0"
    unfolding last_n_def by (rule sum_list_all_zero) (blast dest: in_set_dropD all)
  then show ?thesis
    by (simp add: calculate_adx_def mean_def)
qed

text \<open>
  C8. \<^verbatim>\<open>calculate_adx\<close> returns 0 for every series of fewer than \<open>period + 1\<close> candles.
  On constant prices (every high, low and close the same) of any length it returns 0 as
  well, so never NaN: every directional movement is zero, both indices stay zero under the
  floored \<^verbatim>\<open>atr\<close>, and every \<^verbatim>\<open>dx\<close> is zero by the zero-denominator branch.
\<close>

theorem calculate_adx_short_or_flat:
  "(length klines < period + 1 \<longrightarrow> calculate_adx klines period = 0) \<and>
   ((\<forall>k \<in> set klines. high k = c \<and> low k = c \<and> close k = c) \<longrightarrow> calculate_adx klines period = 0)"
proof (intro conjI impI)
  assume "length klines < period + 1"
  then show "calculate_adx klines period = 0" by (simp add: calculate_adx_def)
next
  assume flat: "\<forall>k \<in> set klines. high k = c \<and> low k = c \<and> close k = c"
  have pz: "\<And>x. x \<in> set (plus_dm klines) \<Longrightarrow> x = 0"
    unfolding plus_dm_def
  proof (rule pairwise_zero [where f = plus_move and ks = klines])
    fix p k assume "p \<in> set klines" "k \<in> set klines"
    with flat have "high k = high p" by simp
    then show "plus_move p k = 0" by (rule plus_move_flat)
  qed
  have mz: "\<And>x. x \<in> set (minus_dm klines) \<Longrightarrow> x = 0"
    unfolding minus_dm_def
  proof (rule pairwise_zero [where f = minus_move and ks = klines])
    fix p k assume "p \<in> set klines" "k \<in> set klines"
    with flat have "low k = low p" by simp
    then show "minus_move p k = 0" by (rule minus_move_flat)
  qed
  from pz mz show "calculate_adx klines period = 0" by (rule calculate_adx_flat)
qed

theorem calculate_adx_short_or_flat_witness: "calculate_adx [candle 5 5 5] 14 = 0 \<and> calculate_adx (replicate 16 (candle 5 5 5)) 14 = 0"
proof -
  have a: "length [candle 5 5 5] < 14 + 1" by simp
  have b: "\<forall>k \<in> set (replicate 16 (candle 5 5 5)). high k = 5 \<and> low k = 5 \<and> close k = 5"
    by (simp add: candle_def)
  from calculate_adx_short_or_flat [of "[candle 5 5 5]" 14 5] a have 1: "calculate_adx [candle 5 5 5] 14 = 0" by blast
  from calculate_adx_short_or_flat [of "replicate 16 (candle 5 5 5)" 14 5] b
  have 2: "calculate_adx (replicate 16 (candle 5 5 5)) 14 = 0" by blast
  from 1 2 show ?thesis by blast
qed

section \<open>The recurrence of calculate_adx\<close>

lemma length_pairwise: "length (pairwise f ks) = length ks - 1"
  by (induction f ks rule: pairwise.induct) simp_all

lemma pairwise_take: "pairwise f (take (Suc n) ks) = take n (pairwise f ks)"
proof (induction f ks arbitrary: n rule: pairwise.induct)
  case (1 f)
  then show ?case by simp
next
  case (2 f k)
  then show ?case by simp
next
  case (3 f prev k ks)
  show ?case
  proof (cases n)
    case 0
    then show ?thesis by simp
  next
    case (Suc m)
    with 3 [of m] show ?thesis by simp
  qed
qed

lemma adx_loop_snoc: "adx_loop period st (xs @ [x]) = adx_step period (adx_loop period st xs) x"
  by (induction xs arbitrary: st) simp_all

lemma drop_take_Suc:
  assumes "p \<le> m" "m < length xs"
  shows "drop p (take (Suc m) xs) = drop p (take m xs) @ [xs ! m]"
  using assms by (simp add: take_Suc_conv_app_nth)

lemma adx_seed_take:
  assumes "period \<le> m"
  shows "adx_seed period (take m trs) (take m pdm) (take m mdm) = adx_seed period trs pdm mdm"
  using assms by (simp add: adx_seed_def min_absorb1)

lemma adx_final_take:
  "adx_final (take (Suc m) klines) period =
     adx_loop period (adx_seed period (take m (tr_values klines)) (take m (plus_dm klines)) (take m (minus_dm klines)))
       (drop period (take m (zip (tr_values klines) (zip (plus_dm klines) (minus_dm klines)))))"
  by (simp add: adx_final_def Let_def tr_values_def plus_dm_def minus_dm_def pairwise_take take_zip)

lemma adx_final_extend:
  assumes p: "period \<le> i" and len: "i + 2 \<le> length klines"
  shows "adx_final (take (i + 2) klines) period =
           adx_step period (adx_final (take (i + 1) klines) period)
             (tr_values klines ! i, plus_dm klines ! i, minus_dm klines ! i)"
proof -
  let ?Z = "zip (tr_values klines) (zip (plus_dm klines) (minus_dm klines))"
  have lt: "length (tr_values klines) = length klines - 1"
    and lp: "length (plus_dm klines) = length klines - 1"
    and lm: "length (minus_dm klines) = length klines - 1"
    by (simp_all add: tr_values_def plus_dm_def minus_dm_def length_pairwise)
  from len have i: "i < length klines - 1" by simp
  then have iZ: "i < length ?Z" by (simp add: lt lp lm)
  have nth: "?Z ! i = (tr_values klines ! i, plus_dm klines ! i, minus_dm klines ! i)"
    using i by (simp add: lt lp lm)
  have seed1: "adx_seed period (take (Suc i) (tr_values klines)) (take (Suc i) (plus_dm klines))
                 (take (Suc i) (minus_dm klines))
               = adx_seed period (tr_values klines) (plus_dm klines) (minus_dm klines)"
    using p by (intro adx_seed_take) simp
  have seed0: "adx_seed period (take i (tr_values klines)) (take i (plus_dm klines))
                 (take i (minus_dm klines))
               = adx_seed period (tr_values klines) (plus_dm klines) (minus_dm klines)"
    using p by (rule adx_seed_take)
  have "adx_final (take (Suc (Suc i)) klines) period =
          adx_loop period (adx_seed period (tr_values klines) (plus_dm klines) (minus_dm klines))
            (drop period (take (Suc i) ?Z))"
    by (simp only: adx_final_take seed1)
  also have "\<dots> = adx_loop period (adx_seed period (tr_values klines) (plus_dm klines) (minus_dm klines))
            (drop period (take i ?Z) @ [?Z ! i])"
    by (simp only: drop_take_Suc [OF p iZ])
  also have "\<dots> = adx_step period (adx_final (take (Suc i) klines) period) (?Z ! i)"
    by (simp only: adx_loop_snoc adx_final_take seed0)
  finally show ?thesis by (simp add: nth)
qed

text \<open>
  C4, as the code has it. Each pass of the second loop Wilder-smooths \<^verbatim>\<open>atr\<close> and
  floors it, applies the same \<open>(prev * (period - 1) + new) / period\<close> form to the previous
  \<^verbatim>\<open>plus_di\<close> and \<^verbatim>\<open>minus_di\<close> with the new directional movement, and only then
  divides by the refreshed \<^verbatim>\<open>atr\<close>, times 100, and clips. The value carried from one
  pass to the next is the previous directional index itself, already scaled by \<^verbatim>\<open>atr\<close>
  and clipped (\<^verbatim>\<open>prev_plus_di = plus_di\<close>, line 90), not a smoothed directional movement.
  Stated on the state after the loop: one more candle takes the state reached on the
  candles so far through exactly one such pass.
\<close>

theorem adx_carries_directional_index:
  assumes p: "1 \<le> period" and k: "period + k + 2 \<le> length klines"
  shows "let i = period + k;
             prev = adx_final (take (i + 1) klines) period;
             next = adx_final (take (i + 2) klines) period;
             atr1 = max ((atr prev * (real period - 1) + tr_values klines ! i) / real period) (1 / 10 ^ 10)
         in atr next = atr1 \<and>
            plus_di next =
              np_clip (100 * ((plus_di prev * (real period - 1) + plus_dm klines ! i) / real period) / atr1)
                (- (10 ^ 5)) (10 ^ 5) \<and>
            minus_di next =
              np_clip (100 * ((minus_di prev * (real period - 1) + minus_dm klines ! i) / real period) / atr1)
                (- (10 ^ 5)) (10 ^ 5) \<and>
            adx_values next = adx_values prev @ [dx_of (plus_di next) (minus_di next)]"
proof -
  have "period \<le> period + k" by simp
  from adx_final_extend [OF this k] show ?thesis
    by (simp add: Let_def adx_step_def)
qed

text \<open>
  C4 as stated fails on four candles with period 2. The code's \<^verbatim>\<open>plus_di\<close> after the
  one pass is 42800/119, about 359.7; carrying a smoothed directional movement gives 600/17,
  about 35.3. The ADX differs too: 350/207 against 25.
\<close>

theorem adx_not_smoothed_dm: "plus_di (adx_final zigzag_klines 2) = 42800 / 119 \<and>
  s_plus_di (spec_adx_final zigzag_klines 2) = 600 / 17 \<and>
  plus_di (adx_final zigzag_klines 2) \<noteq> s_plus_di (spec_adx_final zigzag_klines 2) \<and>
  calculate_adx zigzag_klines 2 = 350 / 207 \<and>
  mean (last_n 2 (s_adx_values (spec_adx_final zigzag_klines 2))) = 25"
  by code_simp


theorem adx_carries_directional_index_witness:
  "(1 :: nat) \<le> 2 \<and> 2 + 0 + 2 \<le> length zigzag_klines \<and>
   plus_di (adx_final (take 3 zigzag_klines) 2) = 200 / 7 \<and>
   plus_di (adx_final (take 4 zigzag_klines) 2) = 42800 / 119"
proof -
  have a: "(1 :: nat) \<le> 2" by simp
  have b: "2 + 0 + 2 \<le> length zigzag_klines" by (simp add: zigzag_klines_def)
  have pv: "plus_di (adx_final (take 3 zigzag_klines) 2) = 200 / 7" by code_simp
  have av: "atr (adx_final (take 3 zigzag_klines) 2) = 7 / 2" by code_simp
  have tv: "tr_values zigzag_klines ! 2 = 5" by code_simp
  have dv: "plus_dm zigzag_klines ! 2 = 2" by code_simp
  from adx_carries_directional_index [OF a b]
  have "plus_di (adx_final (take 4 zigzag_klines) 2) = 42800 / 119"
    by (simp add: Let_def pv av tv dv np_clip_def)
  with a b pv show ?thesis by blast
qed

section \<open>The decision of the mean-reversion strategy\<close>

lemma sum_list_map_drop:
  assumes "k \<le> length xs"
  shows "sum_list (map f (drop k xs)) = (\<Sum>i<length xs - k. f (xs ! (k + i)))"
proof -
  have "sum_list (map f (drop k xs)) = (\<Sum>i = 0..<length (map f (drop k xs)). map f (drop k xs) ! i)"
    by (rule sum_list_sum_nth)
  also have "\<dots> = (\<Sum>i = 0..<length xs - k. f (xs ! (k + i)))"
    using assms by (intro sum.cong) simp_all
  finally show ?thesis by (simp add: atLeast0LessThan)
qed

text \<open>
  C6. With at least 20 candles and a volatility \<open>v\<close> from the analyzer, the mean-reversion
  strategy takes the mean of the last 20 closes and their population standard deviation
  (the squared deviations summed and divided by 20, not 19), the threshold \<open>2 * (1 + v)\<close>
  with no clamp, and the bounds mean plus and minus threshold times deviation; it returns
  \<^verbatim>\<open>'sell'\<close> when the latest close is above the upper bound, \<^verbatim>\<open>'buy'\<close> when it is below
  the lower bound, and \<^verbatim>\<open>'hold'\<close> otherwise.
\<close>

theorem mean_reversion_decision:
  assumes len: "lookback_period \<le> length klines"
  shows "mr_generate_signal (Inr klines) (Inr v) = Inr
    (let n = length klines;
         window = (\<lambda>i. close (klines ! (n - 20 + i)));
         mean = (\<Sum>i<20. window i) / 20;
         std = sqrt ((\<Sum>i<20. (window i - mean) ^ 2) / 20);
         threshold = 2 * (1 + v);
         upper = mean + threshold * std;
         lower = mean - threshold * std;
         price = close (klines ! (n - 1))
     in if price > upper then Sell else if price < lower then Buy else Hold)"
proof -
  from len have n: "20 \<le> length klines" by (simp add: lookback_period_def)
  then have ne: "klines \<noteq> []" by auto
  have k: "length klines - 20 \<le> length klines" by simp
  have d: "length klines - (length klines - 20) = 20" using n by simp
  have s: "\<And>f. sum_list (map f (drop (length klines - 20) klines))
             = (\<Sum>i<20. f (klines ! (length klines - 20 + i)))"
    using sum_list_map_drop [OF k] by (simp only: d)
  have s1: "sum_list (map close (drop (length klines - 20) klines))
             = (\<Sum>i<20. close (klines ! (length klines - 20 + i)))"
    by (rule s)
  have s2: "sum_list (map ((\<lambda>x. (x - m) ^ 2) \<circ> close) (drop (length klines - 20) klines))
             = (\<Sum>i<20. (close (klines ! (length klines - 20 + i)) - m) ^ 2)" for m
    using s [of "(\<lambda>x. (x - m) ^ 2) \<circ> close"] by simp
  have l: "last klines = klines ! (length klines - 1)" using ne by (rule last_conv_nth)
  have nl: "\<not> length klines < lookback_period" using len by simp
  show ?thesis
    using nl n by (simp add: mr_generate_signal_def mr_try_block_def Let_def last_n_def
        lookback_period_def s1 s2 l)
qed

lemma close_spike_klines_nth: "i < 20 \<Longrightarrow> close (spike_klines ! i) = (if i < 19 then 100 else 200)"
  by (auto simp: spike_klines_def nth_append candle_def)

lemma sum_spike_klines: "(\<Sum>i<20. g (close (spike_klines ! i))) = 19 * g 100 + (g 200 :: real)"
proof -
  have "(\<Sum>i<20. g (close (spike_klines ! i))) = (\<Sum>i<(20::nat). if i < 19 then g 100 else g 200)"
    by (rule sum.cong) (simp_all add: close_spike_klines_nth)
  also have "\<dots> = (\<Sum>i<(19::nat). if i < 19 then g 100 else g 200) + g 200"
    using sum.lessThan_Suc [of "\<lambda>i. if i < 19 then g 100 else g 200" 19] by simp
  also have "(\<Sum>i<(19::nat). if i < 19 then g 100 else g 200) = (\<Sum>i<(19::nat). g 100)"
    by (rule sum.cong) simp_all
  finally show ?thesis by simp
qed

text \<open>
  The specification's test: nineteen closes at 100 and one at 200, volatility 0. The mean is
  105, the variance 475, and 200 is above \<open>105 + 2 * sqrt 475\<close>.
\<close>

theorem mean_reversion_decision_witness:
  "lookback_period \<le> length spike_klines \<and>
   mr_generate_signal (Inr spike_klines) (Inr 0) = Inr Sell"
proof -
  have h: "lookback_period \<le> length spike_klines"
    by (simp add: spike_klines_def lookback_period_def)
  have n: "length spike_klines = 20" by (simp add: spike_klines_def)
  have m: "(\<Sum>i<20. close (spike_klines ! i)) = 2100"
    using sum_spike_klines [of "\<lambda>x. x"] by simp
  have v: "(\<Sum>i<20. (close (spike_klines ! i) - 105) ^ 2) = 9500"
    using sum_spike_klines [of "\<lambda>x. (x - 105) ^ 2"] by simp
  have "sqrt 475 \<le> 22" by (rule real_le_lsqrt) simp_all
  then have b: "105 + 2 * sqrt 475 < 200" by simp
  have p: "close (spike_klines ! 19) = 200" by (simp add: close_spike_klines_nth)
  from mean_reversion_decision [OF h, of 0] show ?thesis
    using h b by (simp add: n Let_def m v p)
qed

end
